theory Spec2Isabelle
  imports Complex_Main "HOL-Library.Sublist"
begin

section \<open>Python strings\<close>

text \<open>
  A Python \<open>str\<close> is a sequence of code points. It is modelled as a \<open>string\<close> whose
  characters are the code points below 256, one \<open>char\<close> each; \<open>str.lower\<close> and the
  whitespace of \<open>str.split\<close> are written out for that range as Python defines them.
\<close>

definition py_lower_char :: "char \<Rightarrow> char" where
  \<comment> \<open>\<open>A\<close>..\<open>Z\<close> and the capital letters U+00C0..U+00DE (U+00D7, the multiplication sign, apart)
      have their lower-case letter 32 places higher; every other code point is kept.\<close>
  "py_lower_char c =
     (let n = (of_char c :: nat)
      in if (65 \<le> n \<and> n \<le> 90) \<or> (192 \<le> n \<and> n \<le> 222 \<and> n \<noteq> 215)
         then char_of (n + 32) else c)"

definition py_lower :: "string \<Rightarrow> string" where
  \<comment> \<open>\<open>s.lower()\<close>\<close>
  "py_lower s = map py_lower_char s"

definition py_isspace :: "char \<Rightarrow> bool" where
  \<comment> \<open>the code points \<open>str.split()\<close> treats as whitespace: TAB, LF, VT, FF, CR, the
      separators U+001C..U+001F, SPACE, NEL (U+0085) and NO-BREAK SPACE (U+00A0)\<close>
  "py_isspace c =
     (let n = (of_char c :: nat)
      in (9 \<le> n \<and> n \<le> 13) \<or> (28 \<le> n \<and> n \<le> 32) \<or> n = 133 \<or> n = 160)"

fun split_from :: "string \<Rightarrow> string \<Rightarrow> string list" where
  \<comment> \<open>the scan of \<open>str.split()\<close>: \<open>cur\<close> is the token being read; whitespace ends it, and
      runs of whitespace produce no empty token\<close>
  "split_from cur [] = (if cur = [] then [] else [cur])"
| "split_from cur (c # cs) =
     (if py_isspace c
      then (if cur = [] then split_from [] cs else cur # split_from [] cs)
      else split_from (cur @ [c]) cs)"

definition py_split :: "string \<Rightarrow> string list" where
  \<comment> \<open>\<open>s.split()\<close>\<close>
  "py_split s = split_from [] s"

fun py_contains :: "string \<Rightarrow> string \<Rightarrow> bool" where
  \<comment> \<open>\<open>sub in s\<close> on strings: \<open>sub\<close> occurs at some position of \<open>s\<close>\<close>
  "py_contains sub [] = (sub = [])"
| "py_contains sub (c # cs) = (prefix sub (c # cs) \<or> py_contains sub cs)"

fun py_join :: "string \<Rightarrow> string list \<Rightarrow> string" where
  \<comment> \<open>\<open>sep.join(xs)\<close>\<close>
  "py_join sep [] = []"
| "py_join sep [x] = x"
| "py_join sep (x # y # ys) = x @ sep @ py_join sep (y # ys)"

fun rfind :: "char \<Rightarrow> string \<Rightarrow> nat option" where
  \<comment> \<open>the highest index at which the separator occurs, if it occurs\<close>
  "rfind sep [] = None"
| "rfind sep (c # cs) =
     (case rfind sep cs of
        Some i \<Rightarrow> Some (Suc i)
      | None \<Rightarrow> (if c = sep then Some 0 else None))"

definition rsplit1 :: "char \<Rightarrow> string \<Rightarrow> string list" where
  \<comment> \<open>\<open>s.rsplit(sep, 1)\<close> for a one-character separator: one cut, at the last occurrence\<close>
  "rsplit1 sep s =
     (case rfind sep s of
        None \<Rightarrow> [s]
      | Some i \<Rightarrow> [take i s, drop (Suc i) s])"

section \<open>Exceptions\<close>

datatype exn = Exn (exn_class: string) (exn_str: string)
  \<comment> \<open>an instance of a subclass of \<open>Exception\<close>: its class name and \<open>str(e)\<close>\<close>

definition py_index :: "'a list \<Rightarrow> nat \<Rightarrow> exn + 'a" where
  \<comment> \<open>\<open>xs[i]\<close> for a literal index \<open>i \<ge> 0\<close>\<close>
  "py_index xs i =
     (if i < length xs then Inr (xs ! i)
      else Inl (Exn ''IndexError'' ''list index out of range''))"

section \<open>Upload validation\<close>

definition ALLOWED_EXTENSIONS :: "string set" where
  "ALLOWED_EXTENSIONS = {''png'', ''jpg'', ''jpeg'', ''gif'', ''bmp'', ''webp''}"

definition allowed_file :: "string \<Rightarrow> exn + bool" where
  \<comment> \<open>\<open>'.' in filename and filename.rsplit('.', 1)[1].lower() in ALLOWED_EXTENSIONS\<close>;
      \<open>and\<close> evaluates its right operand only when the left one is true\<close>
  "allowed_file filename =
     (if py_contains ''.'' filename
      then (case py_index (rsplit1 (CHR ''.'') filename) 1 of
              Inl e \<Rightarrow> Inl e
            | Inr ext \<Rightarrow> Inr (py_lower ext \<in> ALLOWED_EXTENSIONS))
      else Inr False)"

section \<open>The outside world and its effects\<close>

type_synonym bytes = "nat list"
type_synonym image = "nat list list"
  \<comment> \<open>the pixel array \<open>np.array(Image.open(stream))\<close>\<close>
type_synonym ocr_result = "(int \<times> int) list \<times> string \<times> rat"
  \<comment> \<open>one entry of \<open>readtext\<close>: (bounding region, recognized text, confidence)\<close>

record chat_message =
  role :: string
  content :: string

record chat_request =
  model :: string
  messages :: "chat_message list"
  max_tokens :: nat
  temperature :: rat

record choice =
  message :: chat_message

record completion =
  choices :: "choice list"
    \<comment> \<open>the response of the API, read as \<open>response['choices'][0]['message']['content']\<close>\<close>

datatype level = INFO | ERROR | CRITICAL

datatype event =
    Logged level string
  | ImageOpened bytes
  | OcrRun image
  | ChatRequested chat_request
  | ReaderBuilt "string list"
  | DirsMade string
  | RouteRegistered string
  | Served string nat bool

text \<open>
  A computation returns a value or raises, and leaves the list of the calls it made to
  the outside and of the records it logged, in order.
\<close>

type_synonym 'a io = "(exn + 'a) \<times> event list"

definition io_return :: "'a \<Rightarrow> 'a io" where
  "io_return x = (Inr x, [])"

definition io_raise :: "exn \<Rightarrow> 'a io" where
  "io_raise e = (Inl e, [])"

definition io_lift :: "exn + 'a \<Rightarrow> 'a io" where
  \<comment> \<open>a pure expression that may raise\<close>
  "io_lift r = (r, [])"

definition io_call :: "event \<Rightarrow> exn + 'a \<Rightarrow> 'a io" where
  \<comment> \<open>a call to the outside: it is recorded, then returns or raises\<close>
  "io_call ev r = (r, [ev])"

definition io_log :: "level \<Rightarrow> string \<Rightarrow> unit io" where
  "io_log lv msg = (Inr (), [Logged lv msg])"

definition io_bind :: "'a io \<Rightarrow> ('a \<Rightarrow> 'b io) \<Rightarrow> 'b io" where
  \<comment> \<open>sequencing: an exception skips the rest\<close>
  "io_bind m f =
     (case m of
        (Inl e, t) \<Rightarrow> (Inl e, t)
      | (Inr x, t) \<Rightarrow> (case f x of (r, t') \<Rightarrow> (r, t @ t')))"

definition io_try :: "'a io \<Rightarrow> (exn \<Rightarrow> 'a io) \<Rightarrow> 'a io" where
  \<comment> \<open>\<open>try: m  except Exception as e: h e\<close>\<close>
  "io_try m h =
     (case m of
        (Inl e, t) \<Rightarrow> (case h e of (r, t') \<Rightarrow> (r, t @ t'))
      | (Inr x, t) \<Rightarrow> (Inr x, t))"

record world =
  image_open :: "bytes \<Rightarrow> exn + image"
    \<comment> \<open>\<open>np.array(Image.open(stream))\<close>, lines 172-173\<close>
  chat_create :: "chat_request \<Rightarrow> exn + completion"
    \<comment> \<open>\<open>openai.ChatCompletion.create\<close>\<close>
  easyocr_Reader :: "string list \<Rightarrow> exn + (image \<Rightarrow> exn + ocr_result list)"
    \<comment> \<open>\<open>easyocr.Reader(languages)\<close>; the reader it builds is its \<open>readtext\<close>\<close>
  makedirs :: "string \<Rightarrow> exn + unit"
    \<comment> \<open>\<open>os.makedirs(path, exist_ok=True)\<close>\<close>
  app_run :: "exn + unit"
    \<comment> \<open>how \<open>app.run\<close> ends once the server stops\<close>

section \<open>QuestionOCRAnalyzer\<close>

record QuestionOCRAnalyzer =
  reader :: "image \<Rightarrow> exn + ocr_result list"

text \<open>
  \<open>environ\<close> is \<open>os.environ\<close> as \<open>os.getenv\<close> reads it when the analyzer is built.
\<close>

definition QuestionOCRAnalyzer_init ::
  "world \<Rightarrow> (string \<rightharpoonup> string) \<Rightarrow> string list \<Rightarrow> QuestionOCRAnalyzer io" where
  "QuestionOCRAnalyzer_init w environ languages =
     io_try
       (io_bind (io_call (ReaderBuilt languages) (easyocr_Reader w languages)) (\<lambda>rd.
          let api_key = environ ''OPENAI_API_KEY''
          in if api_key = None \<or> api_key = Some ''''
             then io_raise (Exn ''ValueError'' ''OpenAI API key is required'')
             else io_return \<lparr>reader = rd\<rparr>))
       (\<lambda>e. io_bind (io_log ERROR (''Initialization failed: '' @ exn_str e)) (\<lambda>_.
          io_raise e))"

definition full_text_of :: "ocr_result list \<Rightarrow> string" where
  \<comment> \<open>line 60: \<open>"\n".join([result[1] for result in results])\<close>\<close>
  "full_text_of results = py_join [CHR 0x0A] (map (\<lambda>result. fst (snd result)) results)"

definition question_keywords :: "string list" where
  "question_keywords = [''what'', ''who'', ''where'', ''when'', ''why'', ''how'', ''which'']"

definition is_likely_question :: "string \<Rightarrow> bool" where
  \<comment> \<open>lines 67-73\<close>
  "is_likely_question full_text =
     (let lower_text = py_lower full_text
      in list_ex (\<lambda>keyword. keyword \<in> set (take 3 (py_split lower_text))) question_keywords
         \<or> py_contains ''?'' full_text)"

definition question_heuristic :: "string \<Rightarrow> string" where
  \<comment> \<open>lines 64-75: what \<open>extract_question\<close> returns for the text it read\<close>
  "question_heuristic full_text = (if is_likely_question full_text then full_text else '''')"

definition extract_question :: "QuestionOCRAnalyzer \<Rightarrow> image \<Rightarrow> string io" where
  "extract_question self image_array =
     io_try
       (io_bind (io_call (OcrRun image_array) (reader self image_array)) (\<lambda>results.
          io_return (question_heuristic (full_text_of results))))
       (\<lambda>e. io_bind (io_log ERROR (''Question extraction failed: '' @ exn_str e)) (\<lambda>_.
          io_return ''''))"

definition system_prompt :: string where
  "system_prompt = ''You are an expert question-answering AI. Provide clear, concise, and accurate answers to the given question. If the question is unclear or cannot be answered, explain why.''"

definition chat_request_for :: "string \<Rightarrow> chat_request" where
  \<comment> \<open>lines 93-110: the arguments of the API call\<close>
  "chat_request_for question =
     \<lparr>model = ''gpt-4o-mini'',
      messages = [\<lparr>role = ''system'', content = system_prompt\<rparr>,
                  \<lparr>role = ''user'', content = question\<rparr>],
      max_tokens = 300,
      temperature = 7 / 10\<rparr>"

definition answer_question :: "world \<Rightarrow> string \<Rightarrow> string io" where
  "answer_question w question =
     io_try
       (io_bind (io_call (ChatRequested (chat_request_for question))
                   (chat_create w (chat_request_for question))) (\<lambda>response.
        io_bind (io_lift (py_index (choices response) 0)) (\<lambda>first_choice.
          io_return (content (message first_choice)))))
       (\<lambda>e. io_bind (io_log ERROR (''Question answering failed: '' @ exn_str e)) (\<lambda>_.
          io_return (''Sorry, I couldn't generate an answer. Error: '' @ exn_str e)))"

section \<open>FlaskQuestionAnswerApp\<close>

record file_storage =
  filename :: string
  stream :: bytes

record request =
  content_length :: nat
    \<comment> \<open>the \<open>Content-Length\<close> of the request\<close>
  files :: "string \<rightharpoonup> file_storage"
    \<comment> \<open>the file parts of the multipart body as the client sent them, by field name\<close>

type_synonym json = "(string \<times> string) list"
type_synonym response = "json \<times> nat"
  \<comment> \<open>\<open>(jsonify(body), status)\<close>\<close>

record FlaskQuestionAnswerApp =
  MAX_CONTENT_LENGTH :: nat
  UPLOAD_FOLDER :: string
  question_analyzer :: QuestionOCRAnalyzer

definition FlaskQuestionAnswerApp_init ::
  "world \<Rightarrow> (string \<rightharpoonup> string) \<Rightarrow> FlaskQuestionAnswerApp io" where
  "FlaskQuestionAnswerApp_init w environ =
     (let upload_folder = (case environ ''UPLOAD_FOLDER'' of None \<Rightarrow> ''./uploads'' | Some d \<Rightarrow> d)
      in io_bind (io_call (DirsMade upload_folder) (makedirs w upload_folder)) (\<lambda>_.
         io_bind (QuestionOCRAnalyzer_init w environ [''en'']) (\<lambda>analyzer.
         io_bind (io_call (RouteRegistered ''/answer-question'') (Inr ())) (\<lambda>_.
           io_return \<lparr>MAX_CONTENT_LENGTH = 16 * 1024 * 1024,
                      UPLOAD_FOLDER = upload_folder,
                      question_analyzer = analyzer\<rparr>))))"

definition request_files ::
  "FlaskQuestionAnswerApp \<Rightarrow> request \<Rightarrow> exn + (string \<rightharpoonup> file_storage)" where
  \<comment> \<open>\<open>request.files\<close> (lines 159 and 162): the body is parsed when the attribute is
      read, and the read raises \<open>RequestEntityTooLarge\<close> for a body longer than the
      \<open>MAX_CONTENT_LENGTH\<close> of line 128\<close>
  "request_files self req =
     (if content_length req > MAX_CONTENT_LENGTH self
      then Inl (Exn ''RequestEntityTooLarge''
             ''413 Request Entity Too Large: The data value transmitted exceeds the capacity limit.'')
      else Inr (files req))"

definition process_question_image ::
  "world \<Rightarrow> FlaskQuestionAnswerApp \<Rightarrow> request \<Rightarrow> response io" where
  "process_question_image w self req =
     io_try
       (io_bind (io_lift (request_files self req)) (\<lambda>files_read.
        case files_read ''image'' of
          None \<Rightarrow> io_return ([(''error'', ''No image file provided'')], 400)
        | Some image_file \<Rightarrow>
            if filename image_file = ''''
            then io_return ([(''error'', ''No selected file'')], 400)
            else
              io_bind (io_lift (allowed_file (filename image_file))) (\<lambda>allowed.
                if \<not> allowed
                then io_return ([(''error'', ''Invalid file type'')], 400)
                else
                  io_bind (io_call (ImageOpened (stream image_file))
                             (image_open w (stream image_file))) (\<lambda>image_array.
                  io_bind (extract_question (question_analyzer self) image_array)
                    (\<lambda>extracted_question.
                    if extracted_question = ''''
                    then io_return ([(''error'', ''No clear question found in the image''),
                                     (''extracted_text'', '''')], 400)
                    else
                      io_bind (answer_question w extracted_question) (\<lambda>answer.
                        io_return ([(''extracted_question'', extracted_question),
                                    (''answer'', answer)], 200)))))))
       (\<lambda>e. io_bind (io_log ERROR (''Question image processing failed: '' @ exn_str e)) (\<lambda>_.
          io_return ([(''error'', ''Internal server error'')], 500)))"

definition run :: "world \<Rightarrow> FlaskQuestionAnswerApp \<Rightarrow> string \<Rightarrow> nat \<Rightarrow> bool \<Rightarrow> unit io" where
  \<comment> \<open>\<open>self.app.run(host=host, port=port, debug=debug)\<close>: the server starts serving\<close>
  "run w self host port debug = io_call (Served host port debug) (app_run w)"

definition main :: "world \<Rightarrow> (string \<rightharpoonup> string) \<Rightarrow> unit io" where
  "main w environ =
     io_try
       (io_bind (FlaskQuestionAnswerApp_init w environ) (\<lambda>question_app.
        io_bind (io_log INFO ''Question Answering OCR Application initialized successfully'') (\<lambda>_.
          run w question_app ''0.0.0.0'' 5000 True)))
       (\<lambda>e. io_log CRITICAL (''Application startup failed: '' @ exn_str e))"

definition load_dotenv ::
  "(string \<rightharpoonup> string) \<Rightarrow> (string \<rightharpoonup> string) \<Rightarrow> (string \<rightharpoonup> string)" where
  \<comment> \<open>line 15, \<open>load_dotenv()\<close>: every variable of the \<open>.env\<close> file that the process
      environment does not have yet is added to it; \<open>dotenv\<close> is the content of the file,
      empty when there is none\<close>
  "load_dotenv dotenv environ =
     (\<lambda>k. case environ k of Some v \<Rightarrow> Some v | None \<Rightarrow> dotenv k)"

definition module_main ::
  "world \<Rightarrow> (string \<rightharpoonup> string) \<Rightarrow> (string \<rightharpoonup> string) \<Rightarrow> unit io" where
  \<comment> \<open>the module run as a script: \<open>load_dotenv()\<close> on line 15, then \<open>main()\<close> on line 214;
      \<open>environ\<close> is the environment the process starts with\<close>
  "module_main w dotenv environ = main w (load_dotenv dotenv environ)"

section \<open>Reading a joined text back\<close>

fun split_on :: "char \<Rightarrow> string \<Rightarrow> string list" where
  \<comment> \<open>the pieces of a string between the occurrences of a separator character\<close>
  "split_on sep [] = [[]]"
| "split_on sep (c # cs) =
     (if c = sep then [] # split_on sep cs
      else (case split_on sep cs of
              [] \<Rightarrow> [[c]]
            | x # xs \<Rightarrow> (c # x) # xs))"

section \<open>Sample worlds and requests\<close>

definition sample_box :: "(int \<times> int) list" where
  "sample_box = [(0, 0), (120, 0), (120, 24), (0, 24)]"

definition decode_ok :: "bytes \<Rightarrow> exn + image" where
  "decode_ok b = Inr [[255, 255], [0, 255]]"

definition ocr_hello :: "image \<Rightarrow> exn + ocr_result list" where
  "ocr_hello img = Inr [(sample_box, ''Hello world'', 9 / 10)]"

definition ocr_moons :: "image \<Rightarrow> exn + ocr_result list" where
  "ocr_moons img = Inr [(sample_box, ''How many moons'', 9 / 10),
                        (sample_box, ''does Mars have?'', 4 / 5)]"

definition ocr_broken :: "image \<Rightarrow> exn + ocr_result list" where
  "ocr_broken img = Inl (Exn ''RuntimeError'' ''CUDA out of memory'')"

definition chat_down :: "chat_request \<Rightarrow> exn + completion" where
  "chat_down r = Inl (Exn ''APIConnectionError'' ''Connection refused'')"

definition reader_ok :: "string list \<Rightarrow> exn + (image \<Rightarrow> exn + ocr_result list)" where
  "reader_ok languages = Inr ocr_moons"

definition makedirs_ok :: "string \<Rightarrow> exn + unit" where
  "makedirs_ok path = Inr ()"

definition sample_world :: world where
  "sample_world =
     \<lparr>image_open = decode_ok, chat_create = chat_down, easyocr_Reader = reader_ok,
      makedirs = makedirs_ok, app_run = Inr ()\<rparr>"

definition app_with :: "(image \<Rightarrow> exn + ocr_result list) \<Rightarrow> FlaskQuestionAnswerApp" where
  "app_with rd =
     \<lparr>MAX_CONTENT_LENGTH = 16 * 1024 * 1024, UPLOAD_FOLDER = ''./uploads'',
      question_analyzer = \<lparr>reader = rd\<rparr>\<rparr>"

definition upload :: "string \<Rightarrow> request" where
  \<comment> \<open>a request whose field \<open>image\<close> is a file of the given name\<close>
  "upload name =
     \<lparr>content_length = 4096,
      files = [''image'' \<mapsto> \<lparr>filename = name, stream = [137, 80, 78, 71]\<rparr>]\<rparr>"



definition no_dotenv :: "string \<rightharpoonup> string" where
  \<comment> \<open>no \<open>.env\<close> file\<close>
  "no_dotenv = Map.empty"

definition dotenv_with_key :: "string \<rightharpoonup> string" where
  \<comment> \<open>a \<open>.env\<close> file with the line \<open>OPENAI_API_KEY=sk-test\<close>\<close>
  "dotenv_with_key = [''OPENAI_API_KEY'' \<mapsto> ''sk-test'']"

definition env_no_key :: "string \<rightharpoonup> string" where
  "env_no_key = [''UPLOAD_FOLDER'' \<mapsto> ''/tmp/uploads'']"

definition env_empty_key :: "string \<rightharpoonup> string" where
  "env_empty_key = [''OPENAI_API_KEY'' \<mapsto> '''']"

section \<open>Facts about the string operations\<close>

lemma py_contains_char: "py_contains [c] s \<longleftrightarrow> c \<in> set s"
  by (induction s) auto

lemma rfind_None: "rfind sep s = None \<longleftrightarrow> sep \<notin> set s"
  by (induction s) (auto split: option.splits)

lemma rfind_Some:
  "rfind sep s = Some i \<Longrightarrow> s = take i s @ sep # drop (Suc i) s \<and> sep \<notin> set (drop (Suc i) s)"
proof (induction s arbitrary: i)
  case Nil
  then show ?case by simp
next
  case (Cons c cs)
  show ?case
  proof (cases "rfind sep cs")
    case None
    with Cons.prems have "c = sep" "i = 0"
      by (auto split: if_splits)
    with None show ?thesis
      by (simp add: rfind_None)
  next
    case (Some j)
    with Cons.prems have "i = Suc j" by simp
    with Cons.IH [OF Some] show ?thesis by simp
  qed
qed

lemma first_cut_unique:
  "xs @ sep # p = ys @ sep # q \<Longrightarrow> sep \<notin> set xs \<Longrightarrow> sep \<notin> set ys \<Longrightarrow> xs = ys"
proof (induction xs arbitrary: ys)
  case Nil
  then show ?case by (cases ys) auto
next
  case (Cons x xs)
  then show ?case by (cases ys) auto
qed

lemma last_cut_unique:
  assumes "pre @ sep # ext = pre' @ sep # ext'" "sep \<notin> set ext" "sep \<notin> set ext'"
  shows "ext = ext'"
proof -
  have "rev (pre @ sep # ext) = rev (pre' @ sep # ext')"
    using assms(1) by simp
  then have "rev ext @ sep # rev pre = rev ext' @ sep # rev pre'"
    by simp
  moreover have "sep \<notin> set (rev ext)" "sep \<notin> set (rev ext')"
    using assms(2,3) by simp_all
  ultimately have "rev ext = rev ext'"
    by (rule first_cut_unique)
  then show ?thesis by simp
qed

lemma allowed_file_Inr:
  "allowed_file f =
     Inr (\<exists>pre ext. f = pre @ CHR ''.'' # ext \<and> CHR ''.'' \<notin> set ext
            \<and> py_lower ext \<in> ALLOWED_EXTENSIONS)"
proof (cases "rfind (CHR ''.'') f")
  case None
  then have "CHR ''.'' \<notin> set f" by (simp add: rfind_None)
  then show ?thesis
    by (auto simp: allowed_file_def py_contains_char)
next
  case (Some i)
  from rfind_Some [OF Some] have cut: "f = take i f @ CHR ''.'' # drop (Suc i) f"
    and nodot: "CHR ''.'' \<notin> set (drop (Suc i) f)" by simp_all
  have dot: "CHR ''.'' \<in> set f"
    using Some rfind_None [of "CHR ''.''" f] by auto
  have val: "allowed_file f = Inr (py_lower (drop (Suc i) f) \<in> ALLOWED_EXTENSIONS)"
    using dot Some by (simp add: allowed_file_def py_contains_char rsplit1_def py_index_def)
  have "(\<exists>pre ext. f = pre @ CHR ''.'' # ext \<and> CHR ''.'' \<notin> set ext
            \<and> py_lower ext \<in> ALLOWED_EXTENSIONS)
        \<longleftrightarrow> py_lower (drop (Suc i) f) \<in> ALLOWED_EXTENSIONS"
  proof
    assume "\<exists>pre ext. f = pre @ CHR ''.'' # ext \<and> CHR ''.'' \<notin> set ext
            \<and> py_lower ext \<in> ALLOWED_EXTENSIONS"
    then obtain pre ext where f: "f = pre @ CHR ''.'' # ext" and e: "CHR ''.'' \<notin> set ext"
      and a: "py_lower ext \<in> ALLOWED_EXTENSIONS" by blast
    have "take i f @ CHR ''.'' # drop (Suc i) f = pre @ CHR ''.'' # ext"
      by (rule trans [OF cut [symmetric] f])
    then have "drop (Suc i) f = ext"
      using nodot e by (rule last_cut_unique)
    with a show "py_lower (drop (Suc i) f) \<in> ALLOWED_EXTENSIONS" by simp
  next
    assume "py_lower (drop (Suc i) f) \<in> ALLOWED_EXTENSIONS"
    with cut nodot show "\<exists>pre ext. f = pre @ CHR ''.'' # ext \<and> CHR ''.'' \<notin> set ext
            \<and> py_lower ext \<in> ALLOWED_EXTENSIONS" by blast
  qed
  with val show ?thesis by simp
qed

lemma py_lower_allowed: "e \<in> ALLOWED_EXTENSIONS \<Longrightarrow> py_lower e = e"
proof -
  have "py_lower ''png'' = ''png''" "py_lower ''jpg'' = ''jpg''" "py_lower ''jpeg'' = ''jpeg''"
    "py_lower ''gif'' = ''gif''" "py_lower ''bmp'' = ''bmp''" "py_lower ''webp'' = ''webp''"
    by code_simp+
  then show "e \<in> ALLOWED_EXTENSIONS \<Longrightarrow> py_lower e = e"
    unfolding ALLOWED_EXTENSIONS_def by auto
qed

lemma no_dot_allowed: "e \<in> ALLOWED_EXTENSIONS \<Longrightarrow> CHR ''.'' \<notin> set e"
  unfolding ALLOWED_EXTENSIONS_def by auto

lemma split_from_tokens:
  "\<forall>c \<in> set cur. \<not> py_isspace c \<Longrightarrow> tok \<in> set (split_from cur s) \<Longrightarrow>
   tok \<noteq> [] \<and> (\<forall>c \<in> set tok. \<not> py_isspace c)"
proof (induction s arbitrary: cur)
  case Nil
  then show ?case by (auto split: if_splits)
next
  case (Cons c cs)
  show ?case
  proof (cases "py_isspace c")
    case True
    have nil: "\<forall>c \<in> set ([]::string). \<not> py_isspace c" by simp
    from True Cons.prems(2) have "tok = cur \<and> cur \<noteq> [] \<or> tok \<in> set (split_from [] cs)"
      by (auto split: if_splits)
    then show ?thesis
      using Cons.IH [OF nil] Cons.prems(1) by blast
  next
    case False
    with Cons.prems(1) have ok: "\<forall>d \<in> set (cur @ [c]). \<not> py_isspace d" by simp
    from False Cons.prems(2) have "tok \<in> set (split_from (cur @ [c]) cs)" by simp
    with Cons.IH [OF ok] show ?thesis by blast
  qed
qed

lemma py_split_tokens:
  "tok \<in> set (py_split s) \<Longrightarrow> tok \<noteq> [] \<and> (\<forall>c \<in> set tok. \<not> py_isspace c)"
  unfolding py_split_def by (rule split_from_tokens) simp_all

lemma split_from_space:
  "py_isspace d \<Longrightarrow> split_from cur (a @ d # b) = split_from cur a @ split_from [] b"
  by (induction a arbitrary: cur) auto

lemma py_split_space:
  "py_isspace d \<Longrightarrow> py_split (a @ d # b) = py_split a @ py_split b"
  unfolding py_split_def by (rule split_from_space)

lemma split_from_word:
  "\<forall>c \<in> set s. \<not> py_isspace c \<Longrightarrow>
   split_from cur s = (if cur @ s = [] then [] else [cur @ s])"
  by (induction s arbitrary: cur) auto

lemma py_split_word:
  "s \<noteq> [] \<Longrightarrow> \<forall>c \<in> set s. \<not> py_isspace c \<Longrightarrow> py_split s = [s]"
  unfolding py_split_def by (simp add: split_from_word)

lemma keyword_test:
  "list_ex (\<lambda>keyword. keyword \<in> set toks) question_keywords \<longleftrightarrow>
   (\<exists>tok \<in> set toks. tok \<in> {''what'', ''who'', ''where'', ''when'', ''why'', ''how'', ''which''})"
  unfolding question_keywords_def list_ex_iff by auto

lemma is_likely_question_iff:
  "is_likely_question t \<longleftrightarrow>
     (\<exists>tok \<in> set (take 3 (py_split (py_lower t))).
         tok \<in> {''what'', ''who'', ''where'', ''when'', ''why'', ''how'', ''which''})
     \<or> CHR ''?'' \<in> set t"
  unfolding is_likely_question_def Let_def keyword_test py_contains_char ..

lemma split_on_join:
  "texts \<noteq> [] \<Longrightarrow> \<forall>t \<in> set texts. sep \<notin> set t \<Longrightarrow>
   split_on sep (py_join [sep] texts) = texts"
proof (induction "[sep]" texts rule: py_join.induct)
  case 1
  then show ?case by simp
next
  case (2 x)
  then show ?case by (induction x) (auto split: list.splits)
next
  case (3 x y ys)
  then have IH: "split_on sep (py_join [sep] (y # ys)) = y # ys" by simp
  from 3 have "sep \<notin> set x" by simp
  then show ?case using IH by (induction x) (auto split: list.splits)
qed

section \<open>Facts about the computations\<close>

lemmas io_defs =
  io_return_def io_raise_def io_lift_def io_call_def io_log_def io_bind_def io_try_def

lemma extract_question_eq:
  "extract_question self img =
     (case reader self img of
        Inl e \<Rightarrow> (Inr '''', [OcrRun img, Logged ERROR (''Question extraction failed: '' @ exn_str e)])
      | Inr results \<Rightarrow> (Inr (question_heuristic (full_text_of results)), [OcrRun img]))"
  by (simp add: extract_question_def io_defs split: sum.splits)

lemma answer_question_eq:
  "answer_question w q =
     (case chat_create w (chat_request_for q) of
        Inl e \<Rightarrow> (Inr (''Sorry, I couldn't generate an answer. Error: '' @ exn_str e),
                  [ChatRequested (chat_request_for q),
                   Logged ERROR (''Question answering failed: '' @ exn_str e)])
      | Inr response \<Rightarrow>
          (case choices response of
             [] \<Rightarrow> (Inr (''Sorry, I couldn't generate an answer. Error: list index out of range''),
                    [ChatRequested (chat_request_for q),
                     Logged ERROR (''Question answering failed: list index out of range'')])
           | c # _ \<Rightarrow> (Inr (content (message c)), [ChatRequested (chat_request_for q)])))"
  by (simp add: answer_question_def io_defs py_index_def split: sum.splits list.splits)

lemma request_files_within:
  "content_length req \<le> MAX_CONTENT_LENGTH self \<Longrightarrow> request_files self req = Inr (files req)"
  by (simp add: request_files_def)





lemma handler_decode_raises:
  "content_length req \<le> MAX_CONTENT_LENGTH self \<Longrightarrow>
   files req ''image'' = Some f \<Longrightarrow> filename f \<noteq> '''' \<Longrightarrow> allowed_file (filename f) = Inr True \<Longrightarrow>
   image_open w (stream f) = Inl e \<Longrightarrow>
   process_question_image w self req =
     (Inr ([(''error'', ''Internal server error'')], 500),
      [ImageOpened (stream f), Logged ERROR (''Question image processing failed: '' @ exn_str e)])"
  by (simp add: process_question_image_def request_files_within io_defs)

lemma handler_no_question:
  "content_length req \<le> MAX_CONTENT_LENGTH self \<Longrightarrow>
   files req ''image'' = Some f \<Longrightarrow> filename f \<noteq> '''' \<Longrightarrow> allowed_file (filename f) = Inr True \<Longrightarrow>
   image_open w (stream f) = Inr img \<Longrightarrow>
   extract_question (question_analyzer self) img = (Inr '''', t) \<Longrightarrow>
   process_question_image w self req =
     (Inr ([(''error'', ''No clear question found in the image''), (''extracted_text'', '''')], 400),
      ImageOpened (stream f) # t)"
  by (simp add: process_question_image_def request_files_within io_defs)

lemma handler_question:
  "content_length req \<le> MAX_CONTENT_LENGTH self \<Longrightarrow>
   files req ''image'' = Some f \<Longrightarrow> filename f \<noteq> '''' \<Longrightarrow> allowed_file (filename f) = Inr True \<Longrightarrow>
   image_open w (stream f) = Inr img \<Longrightarrow>
   extract_question (question_analyzer self) img = (Inr q, t) \<Longrightarrow> q \<noteq> '''' \<Longrightarrow>
   answer_question w q = (Inr a, t') \<Longrightarrow>
   process_question_image w self req =
     (Inr ([(''extracted_question'', q), (''answer'', a)], 200), ImageOpened (stream f) # t @ t')"
  by (simp add: process_question_image_def request_files_within io_defs)

lemma extract_question_returns:
  "\<exists>s t. extract_question self img = (Inr s, OcrRun img # t)"
  by (simp add: extract_question_eq split: sum.splits)

lemma answer_question_returns:
  "\<exists>a t. answer_question w q = (Inr a, t)"
  by (simp add: answer_question_eq split: sum.splits list.splits)

lemma handler_valid_decodes:
  assumes "content_length req \<le> MAX_CONTENT_LENGTH self"
    and "files req ''image'' = Some f" "filename f \<noteq> ''''" "allowed_file (filename f) = Inr True"
  shows "\<exists>t. snd (process_question_image w self req) = ImageOpened (stream f) # t"
proof (cases "image_open w (stream f)")
  case (Inl e)
  with assms show ?thesis by (simp add: handler_decode_raises)
next
  case (Inr img)
  obtain s t where ex: "extract_question (question_analyzer self) img = (Inr s, OcrRun img # t)"
    using extract_question_returns by blast
  show ?thesis
  proof (cases "s = ''''")
    case True
    with assms Inr ex show ?thesis by (simp add: handler_no_question)
  next
    case False
    obtain a t' where "answer_question w s = (Inr a, t')"
      using answer_question_returns by blast
    with assms Inr ex False show ?thesis by (simp add: handler_question)
  qed
qed


section \<open>Facts about the sample worlds\<close>

lemma upload_file:
  "files (upload name) ''image'' = Some \<lparr>filename = name, stream = [137, 80, 78, 71]\<rparr>"
  by (simp add: upload_def)

lemma upload_within: "content_length (upload name) \<le> MAX_CONTENT_LENGTH (app_with rd)"
  by (simp add: upload_def app_with_def)


lemma allowed_question_png: "allowed_file ''question.png'' = Inr True"
  by code_simp

lemma sample_decode: "image_open sample_world b = Inr [[255, 255], [0, 255]]"
  by (simp add: sample_world_def decode_ok_def)

lemma hello_no_question:
  "question_heuristic (full_text_of [(sample_box, ''Hello world'', 9 / 10)]) = ''''"
  by code_simp

lemma moons_question:
  "question_heuristic
     (full_text_of [(sample_box, ''How many moons'', 9 / 10), (sample_box, ''does Mars have?'', 4 / 5)])
   = ''How many moons'' @ [CHR 0x0A] @ ''does Mars have?''"
  by code_simp

section \<open>Facts about the startup\<close>

lemma analyzer_init_no_key:
  assumes "environ ''OPENAI_API_KEY'' = None \<or> environ ''OPENAI_API_KEY'' = Some ''''"
  shows "QuestionOCRAnalyzer_init w environ languages =
           (case easyocr_Reader w languages of
              Inl e \<Rightarrow> (Inl e, [ReaderBuilt languages,
                                Logged ERROR (''Initialization failed: '' @ exn_str e)])
            | Inr rd \<Rightarrow> (Inl (Exn ''ValueError'' ''OpenAI API key is required''),
                          [ReaderBuilt languages,
                           Logged ERROR ''Initialization failed: OpenAI API key is required'']))"
  using assms by (auto simp: QuestionOCRAnalyzer_init_def io_defs split: sum.splits)

lemma app_init_no_key:
  assumes "environ ''OPENAI_API_KEY'' = None \<or> environ ''OPENAI_API_KEY'' = Some ''''"
  shows "\<exists>e t. FlaskQuestionAnswerApp_init w environ = (Inl e, t)
             \<and> (\<forall>h p d. Served h p d \<notin> set t) \<and> (\<forall>m. Logged CRITICAL m \<notin> set t)"
proof (cases "makedirs w (case environ ''UPLOAD_FOLDER'' of None \<Rightarrow> ''./uploads'' | Some d \<Rightarrow> d)")
  case (Inl e)
  then show ?thesis
    by (simp add: FlaskQuestionAnswerApp_init_def io_defs)
next
  case (Inr u)
  then show ?thesis
    by (simp add: FlaskQuestionAnswerApp_init_def analyzer_init_no_key [of environ, OF assms] io_defs
        split: sum.splits)
qed

lemma main_after_failed_init:
  "FlaskQuestionAnswerApp_init w environ = (Inl e, t) \<Longrightarrow>
   main w environ = (Inr (), t @ [Logged CRITICAL (''Application startup failed: '' @ exn_str e)])"
  by (simp add: main_def io_defs)

lemma load_dotenv_key:
  "(load_dotenv dotenv environ k = None \<or> load_dotenv dotenv environ k = Some '''') \<longleftrightarrow>
   (environ k = Some '''' \<or> (environ k = None \<and> (dotenv k = None \<or> dotenv k = Some '''')))"
  by (auto simp: load_dotenv_def split: option.splits)

lemma app_init_after_makedirs:
  "makedirs w (case environ ''UPLOAD_FOLDER'' of None \<Rightarrow> ''./uploads'' | Some d \<Rightarrow> d) = Inr u \<Longrightarrow>
   QuestionOCRAnalyzer_init w environ [''en''] = (Inl e, t) \<Longrightarrow>
   FlaskQuestionAnswerApp_init w environ =
     (Inl e, DirsMade (case environ ''UPLOAD_FOLDER'' of None \<Rightarrow> ''./uploads'' | Some d \<Rightarrow> d) # t)"
  by (simp add: FlaskQuestionAnswerApp_init_def io_defs Let_def)

lemma main_with_key:
  "main sample_world [''OPENAI_API_KEY'' \<mapsto> ''sk-test''] =
     (Inr (), [DirsMade ''./uploads'', ReaderBuilt [''en''], RouteRegistered ''/answer-question'',
               Logged INFO ''Question Answering OCR Application initialized successfully'',
               Served ''0.0.0.0'' 5000 True])"
  by (simp add: main_def FlaskQuestionAnswerApp_init_def QuestionOCRAnalyzer_init_def run_def
      sample_world_def reader_ok_def makedirs_ok_def io_defs Let_def)

lemma main_no_key_trace:
  "main sample_world env_no_key =
     (Inr (), [DirsMade ''/tmp/uploads'', ReaderBuilt [''en''],
               Logged ERROR ''Initialization failed: OpenAI API key is required'',
               Logged CRITICAL ''Application startup failed: OpenAI API key is required''])"
  by (simp add: main_def FlaskQuestionAnswerApp_init_def QuestionOCRAnalyzer_init_def run_def
      sample_world_def reader_ok_def makedirs_ok_def io_defs env_no_key_def)

section \<open>The claims\<close>

text \<open>
  C1, as the specification states it: when the OCR engine raises during text recognition on
  a request that passed upload validation, the handler answers 500 with the body
  \<open>{"error": "Internal server error"}\<close>. The code does otherwise: \<open>extract_question\<close> has
  its own \<open>try\<close>/\<open>except\<close>, so the exception never reaches the handler. For the upload
  \<open>question.png\<close>, a decodable image and a reader that raises \<open>RuntimeError\<close>, the answer is
  400 with the "no clear question" body, not 500.
\<close>

theorem ocr_exception_counterexample:
  "content_length (upload ''question.png'') \<le> MAX_CONTENT_LENGTH (app_with ocr_broken)
   \<and> files (upload ''question.png'') ''image''
     = Some \<lparr>filename = ''question.png'', stream = [137, 80, 78, 71]\<rparr>
   \<and> ''question.png'' \<noteq> ''''
   \<and> allowed_file ''question.png'' = Inr True
   \<and> image_open sample_world [137, 80, 78, 71] = Inr [[255, 255], [0, 255]]
   \<and> reader (question_analyzer (app_with ocr_broken)) [[255, 255], [0, 255]]
       = Inl (Exn ''RuntimeError'' ''CUDA out of memory'')
   \<and> fst (process_question_image sample_world (app_with ocr_broken) (upload ''question.png''))
       = Inr ([(''error'', ''No clear question found in the image''), (''extracted_text'', '''')], 400)
   \<and> fst (process_question_image sample_world (app_with ocr_broken) (upload ''question.png''))
       \<noteq> Inr ([(''error'', ''Internal server error'')], 500)"
proof -
  have d: "image_open sample_world [137, 80, 78, 71] = Inr [[255, 255], [0, 255]]"
    by (simp add: sample_world_def decode_ok_def)
  have r: "reader (question_analyzer (app_with ocr_broken)) [[255, 255], [0, 255]]
       = Inl (Exn ''RuntimeError'' ''CUDA out of memory'')"
    by (simp add: app_with_def ocr_broken_def)
  have x: "extract_question (question_analyzer (app_with ocr_broken)) [[255, 255], [0, 255]]
       = (Inr '''', [OcrRun [[255, 255], [0, 255]],
                     Logged ERROR (''Question extraction failed: '' @ ''CUDA out of memory'')])"
    by (simp add: extract_question_eq r)
  have "fst (process_question_image sample_world (app_with ocr_broken) (upload ''question.png''))
       = Inr ([(''error'', ''No clear question found in the image''), (''extracted_text'', '''')], 400)"
    using handler_no_question [OF upload_within upload_file _ _ _ x, of "''question.png''" sample_world]
      allowed_question_png d by simp
  with upload_within upload_file allowed_question_png d r show ?thesis by simp
qed

text \<open>
  C1, amended: for every request that passes upload validation (its body is within the
  size limit, so that \<open>request.files\<close> is read, and the three checks pass) and whose image
  decodes, if the OCR engine raises an exception during text recognition, the handler
  answers 400 with the body
  \<open>{"error": "No clear question found in the image", "extracted_text": ""}\<close>; the exception
  is logged by \<open>extract_question\<close> and the answer adapter is not called.
\<close>

theorem ocr_exception_response:
  assumes "content_length req \<le> MAX_CONTENT_LENGTH self"
    and "files req ''image'' = Some f" "filename f \<noteq> ''''"
    and "allowed_file (filename f) = Inr True"
    and "image_open w (stream f) = Inr img"
    and "reader (question_analyzer self) img = Inl e"
  shows "process_question_image w self req =
           (Inr ([(''error'', ''No clear question found in the image''),
                  (''extracted_text'', '''')], 400),
            [ImageOpened (stream f), OcrRun img,
             Logged ERROR (''Question extraction failed: '' @ exn_str e)])"
proof -
  have "extract_question (question_analyzer self) img =
          (Inr '''', [OcrRun img, Logged ERROR (''Question extraction failed: '' @ exn_str e)])"
    using assms(6) by (simp add: extract_question_eq)
  with assms(1-5) show ?thesis by (rule handler_no_question)
qed

theorem ocr_exception_response_witness:
  "content_length (upload ''question.png'') \<le> MAX_CONTENT_LENGTH (app_with ocr_broken)
   \<and> files (upload ''question.png'') ''image''
     = Some \<lparr>filename = ''question.png'', stream = [137, 80, 78, 71]\<rparr>
   \<and> ''question.png'' \<noteq> ''''
   \<and> allowed_file ''question.png'' = Inr True
   \<and> image_open sample_world [137, 80, 78, 71] = Inr [[255, 255], [0, 255]]
   \<and> reader (question_analyzer (app_with ocr_broken)) [[255, 255], [0, 255]]
       = Inl (Exn ''RuntimeError'' ''CUDA out of memory'')
   \<and> process_question_image sample_world (app_with ocr_broken) (upload ''question.png'')
       = (Inr ([(''error'', ''No clear question found in the image''),
                (''extracted_text'', '''')], 400),
          [ImageOpened [137, 80, 78, 71], OcrRun [[255, 255], [0, 255]],
           Logged ERROR ''Question extraction failed: CUDA out of memory''])"
proof -
  have d: "image_open sample_world [137, 80, 78, 71] = Inr [[255, 255], [0, 255]]"
    by (simp add: sample_world_def decode_ok_def)
  have r: "reader (question_analyzer (app_with ocr_broken)) [[255, 255], [0, 255]]
       = Inl (Exn ''RuntimeError'' ''CUDA out of memory'')"
    by (simp add: app_with_def ocr_broken_def)
  from ocr_exception_response [where req = "upload ''question.png''"
      and f = "\<lparr>filename = ''question.png'', stream = [137, 80, 78, 71]\<rparr>"
      and w = sample_world and img = "[[255, 255], [0, 255]]" and self = "app_with ocr_broken"
      and e = "Exn ''RuntimeError'' ''CUDA out of memory''"]
    upload_within upload_file allowed_question_png d r
  show ?thesis by simp
qed

text \<open>
  C2. The text is classified as a question exactly when one of the first three tokens of
  \<open>lower_text.split()\<close> equals one of what, who, where, when, why, how, which, or the text
  itself contains \<open>?\<close>; the heuristic returns the text unchanged in that case and the empty
  string otherwise. The tokens are non-empty and free of whitespace. This is what
  \<open>extract_question\<close> returns for the text the reader gave. The empty text is not a
  question, and an empty OCR result makes \<open>extract_question\<close> return the empty string
  with no exception caught on the way.
\<close>

theorem question_heuristic_spec:
  "(is_likely_question t \<longleftrightarrow>
      (\<exists>tok \<in> set (take 3 (py_split (py_lower t))).
          tok \<in> {''what'', ''who'', ''where'', ''when'', ''why'', ''how'', ''which''})
      \<or> CHR ''?'' \<in> set t)
   \<and> question_heuristic t =
       (if (\<exists>tok \<in> set (take 3 (py_split (py_lower t))).
               tok \<in> {''what'', ''who'', ''where'', ''when'', ''why'', ''how'', ''which''})
           \<or> CHR ''?'' \<in> set t
        then t else '''')
   \<and> (\<forall>tok \<in> set (py_split (py_lower t)). tok \<noteq> [] \<and> (\<forall>c \<in> set tok. \<not> py_isspace c))
   \<and> (\<forall>results. reader self img = Inr results \<longrightarrow>
          extract_question self img = (Inr (question_heuristic (full_text_of results)), [OcrRun img]))
   \<and> \<not> is_likely_question '''' \<and> question_heuristic '''' = ''''
   \<and> (reader self img = Inr [] \<longrightarrow> extract_question self img = (Inr '''', [OcrRun img]))"
proof -
  have a: "is_likely_question t \<longleftrightarrow>
      (\<exists>tok \<in> set (take 3 (py_split (py_lower t))).
          tok \<in> {''what'', ''who'', ''where'', ''when'', ''why'', ''how'', ''which''})
      \<or> CHR ''?'' \<in> set t"
    by (rule is_likely_question_iff)
  have b: "question_heuristic t =
       (if (\<exists>tok \<in> set (take 3 (py_split (py_lower t))).
               tok \<in> {''what'', ''who'', ''where'', ''when'', ''why'', ''how'', ''which''})
           \<or> CHR ''?'' \<in> set t
        then t else '''')"
    unfolding question_heuristic_def is_likely_question_iff ..
  have c: "\<forall>tok \<in> set (py_split (py_lower t)). tok \<noteq> [] \<and> (\<forall>c \<in> set tok. \<not> py_isspace c)"
    using py_split_tokens by blast
  have d: "\<forall>results. reader self img = Inr results \<longrightarrow>
          extract_question self img = (Inr (question_heuristic (full_text_of results)), [OcrRun img])"
    by (simp add: extract_question_eq)
  have e: "\<not> is_likely_question ''''" by code_simp
  then have f: "question_heuristic '''' = ''''" by (simp add: question_heuristic_def)
  have g: "reader self img = Inr [] \<longrightarrow> extract_question self img = (Inr '''', [OcrRun img])"
    using f by (simp add: extract_question_eq full_text_of_def)
  from a b c d e f g show ?thesis by blast
qed

theorem question_heuristic_spec_witness:
  "question_heuristic ''Tell me WHY now'' = ''Tell me WHY now''
   \<and> question_heuristic ''Is this correct?'' = ''Is this correct?''
   \<and> question_heuristic ''Somewhat odd, tell me what'' = ''''
   \<and> reader \<lparr>reader = ocr_hello\<rparr> [[0]] = Inr [(sample_box, ''Hello world'', 9 / 10)]
   \<and> extract_question \<lparr>reader = ocr_hello\<rparr> [[0]] = (Inr '''', [OcrRun [[0]]])"
proof -
  have t1: "take 3 (py_split (py_lower ''Tell me WHY now'')) = [''tell'', ''me'', ''why'']"
    by code_simp
  have t2: "take 3 (py_split (py_lower ''Is this correct?'')) = [''is'', ''this'', ''correct?'']"
    by code_simp
  have t3: "take 3 (py_split (py_lower ''Somewhat odd, tell me what'')) = [''somewhat'', ''odd,'', ''tell'']"
    by code_simp
  have r: "reader \<lparr>reader = ocr_hello\<rparr> [[0]] = Inr [(sample_box, ''Hello world'', 9 / 10)]"
    by (simp add: ocr_hello_def)
  have h: "question_heuristic (full_text_of [(sample_box, ''Hello world'', 9 / 10)]) = ''''"
    by code_simp
  have "question_heuristic ''Tell me WHY now'' = ''Tell me WHY now''"
    using question_heuristic_spec [of "''Tell me WHY now''"] by (simp add: t1)
  moreover have "question_heuristic ''Is this correct?'' = ''Is this correct?''"
    using question_heuristic_spec [of "''Is this correct?''"] by (simp add: t2)
  moreover have "question_heuristic ''Somewhat odd, tell me what'' = ''''"
    using question_heuristic_spec [of "''Somewhat odd, tell me what''"] by (simp add: t3)
  moreover have "extract_question \<lparr>reader = ocr_hello\<rparr> [[0]] = (Inr '''', [OcrRun [[0]]])"
    using question_heuristic_spec [of "''''" "\<lparr>reader = ocr_hello\<rparr>" "[[0]]"] r h by simp
  ultimately show ?thesis using r by simp
qed

text \<open>
  C3. Upload validation accepts a filename exactly when it contains a \<open>.\<close> and the
  lower-cased substring after the last \<open>.\<close> is one of png, jpg, jpeg, gif, bmp, webp. The
  substring after the last \<open>.\<close> is the \<open>ext\<close> of the one cut \<open>pre @ ''.'' @ ext\<close> whose
  \<open>ext\<close> has no \<open>.\<close>. A filename without a \<open>.\<close> is rejected, and \<open>PHOTO.JPG\<close> is accepted.
\<close>

theorem allowed_file_iff:
  "allowed_file f =
     Inr (CHR ''.'' \<in> set f
          \<and> (\<exists>pre ext. f = pre @ CHR ''.'' # ext \<and> CHR ''.'' \<notin> set ext
                \<and> py_lower ext \<in> {''png'', ''jpg'', ''jpeg'', ''gif'', ''bmp'', ''webp''}))
   \<and> (CHR ''.'' \<notin> set f \<longrightarrow> allowed_file f = Inr False)
   \<and> allowed_file ''PHOTO.JPG'' = Inr True"
proof (intro conjI impI)
  show "allowed_file f =
     Inr (CHR ''.'' \<in> set f
          \<and> (\<exists>pre ext. f = pre @ CHR ''.'' # ext \<and> CHR ''.'' \<notin> set ext
                \<and> py_lower ext \<in> {''png'', ''jpg'', ''jpeg'', ''gif'', ''bmp'', ''webp''}))"
    unfolding allowed_file_Inr ALLOWED_EXTENSIONS_def by auto
  show "allowed_file f = Inr False" if "CHR ''.'' \<notin> set f"
    using that by (simp add: allowed_file_def py_contains_char)
  show "allowed_file ''PHOTO.JPG'' = Inr True"
    by code_simp
qed

theorem allowed_file_iff_witness:
  "allowed_file ''scan.v2.JPeG'' = Inr True
   \<and> CHR ''.'' \<notin> set ''png'' \<and> allowed_file ''png'' = Inr False"
proof -
  have low: "py_lower ''JPeG'' = ''jpeg''" by code_simp
  have "''scan.v2.JPeG'' = ''scan.v2'' @ CHR ''.'' # ''JPeG'' \<and> CHR ''.'' \<notin> set ''JPeG''
        \<and> py_lower ''JPeG'' \<in> {''png'', ''jpg'', ''jpeg'', ''gif'', ''bmp'', ''webp''}"
    by (simp add: low)
  then have "\<exists>pre ext. ''scan.v2.JPeG'' = pre @ CHR ''.'' # ext \<and> CHR ''.'' \<notin> set ext
        \<and> py_lower ext \<in> {''png'', ''jpg'', ''jpeg'', ''gif'', ''bmp'', ''webp''}"
    by blast
  then have "allowed_file ''scan.v2.JPeG'' = Inr True"
    using allowed_file_iff [of "''scan.v2.JPeG''"] by simp
  moreover have "CHR ''.'' \<notin> set ''png''" by simp
  moreover have "allowed_file ''png'' = Inr False"
    using allowed_file_iff [of "''png''"] by simp
  ultimately show ?thesis by simp
qed

text \<open>
  C4. When the chat-completion call raises an exception \<open>e\<close>, \<open>answer_question\<close> returns
  the string \<open>Sorry, I couldn't generate an answer. Error: \<close> followed by \<open>str(e)\<close> as its
  value; a request that reached the answer step (body within the size limit, valid upload,
  decoded image, non-empty extracted question) is then answered 200 with that string in the
  field \<open>answer\<close>.
\<close>

theorem api_error_becomes_answer:
  assumes "chat_create w (chat_request_for q) = Inl e"
  shows "answer_question w q =
           (Inr (''Sorry, I couldn't generate an answer. Error: '' @ exn_str e),
            [ChatRequested (chat_request_for q),
             Logged ERROR (''Question answering failed: '' @ exn_str e)])
         \<and> (\<forall>f img t. content_length req \<le> MAX_CONTENT_LENGTH self
               \<and> files req ''image'' = Some f \<and> filename f \<noteq> ''''
               \<and> allowed_file (filename f) = Inr True \<and> image_open w (stream f) = Inr img
               \<and> extract_question (question_analyzer self) img = (Inr q, t) \<and> q \<noteq> ''''
               \<longrightarrow> fst (process_question_image w self req) =
                     Inr ([(''extracted_question'', q),
                           (''answer'', ''Sorry, I couldn't generate an answer. Error: '' @ exn_str e)],
                          200))"
proof -
  have a: "answer_question w q =
           (Inr (''Sorry, I couldn't generate an answer. Error: '' @ exn_str e),
            [ChatRequested (chat_request_for q),
             Logged ERROR (''Question answering failed: '' @ exn_str e)])"
    using assms by (simp add: answer_question_eq)
  have "fst (process_question_image w self req) =
          Inr ([(''extracted_question'', q),
                (''answer'', ''Sorry, I couldn't generate an answer. Error: '' @ exn_str e)], 200)"
    if "content_length req \<le> MAX_CONTENT_LENGTH self"
      "files req ''image'' = Some f" "filename f \<noteq> ''''"
      "allowed_file (filename f) = Inr True" "image_open w (stream f) = Inr img"
      "extract_question (question_analyzer self) img = (Inr q, t)" "q \<noteq> ''''" for f img t
    by (simp add: handler_question [OF that a])
  with a show ?thesis by blast
qed

theorem api_error_becomes_answer_witness:
  "content_length (upload ''question.png'') \<le> MAX_CONTENT_LENGTH (app_with ocr_moons)
   \<and> chat_create sample_world (chat_request_for (''How many moons'' @ [CHR 0x0A] @ ''does Mars have?''))
     = Inl (Exn ''APIConnectionError'' ''Connection refused'')
   \<and> fst (answer_question sample_world (''How many moons'' @ [CHR 0x0A] @ ''does Mars have?''))
     = Inr ''Sorry, I couldn't generate an answer. Error: Connection refused''
   \<and> fst (process_question_image sample_world (app_with ocr_moons) (upload ''question.png''))
     = Inr ([(''extracted_question'', ''How many moons'' @ [CHR 0x0A] @ ''does Mars have?''),
             (''answer'', ''Sorry, I couldn't generate an answer. Error: Connection refused'')], 200)"
proof -
  let ?q = "''How many moons'' @ [CHR 0x0A] @ ''does Mars have?''"
  let ?e = "Exn ''APIConnectionError'' ''Connection refused''"
  have c: "chat_create sample_world (chat_request_for ?q) = Inl ?e"
    by (simp add: sample_world_def chat_down_def)
  note inst = api_error_becomes_answer [OF c, of "upload ''question.png''" "app_with ocr_moons"]
  have x: "extract_question (question_analyzer (app_with ocr_moons)) [[255, 255], [0, 255]]
             = (Inr ?q, [OcrRun [[255, 255], [0, 255]]])"
    by (simp only: extract_question_eq app_with_def ocr_moons_def moons_question
        FlaskQuestionAnswerApp.simps QuestionOCRAnalyzer.simps sum.case)
  have ne: "?q \<noteq> ''''" by simp
  from inst have "fst (answer_question sample_world ?q)
      = Inr (''Sorry, I couldn't generate an answer. Error: '' @ exn_str ?e)"
    by simp
  then have a: "fst (answer_question sample_world ?q)
     = Inr ''Sorry, I couldn't generate an answer. Error: Connection refused''"
    by simp
  have lim: "content_length (upload ''question.png'') \<le> MAX_CONTENT_LENGTH (app_with ocr_moons)"
    by (rule upload_within)
  from inst lim upload_file [of "''question.png''"] allowed_question_png
    sample_decode [of "[137, 80, 78, 71]"] x ne
  have "fst (process_question_image sample_world (app_with ocr_moons) (upload ''question.png'')) =
          Inr ([(''extracted_question'', ?q),
                (''answer'', ''Sorry, I couldn't generate an answer. Error: '' @ exn_str ?e)], 200)"
    by fastforce
  then have h: "fst (process_question_image sample_world (app_with ocr_moons) (upload ''question.png''))
     = Inr ([(''extracted_question'', ?q),
             (''answer'', ''Sorry, I couldn't generate an answer. Error: Connection refused'')], 200)"
    by simp
  from lim c a h show ?thesis by (intro conjI)
qed




text \<open>
  C6. When the upload is valid (body within the size limit, the three checks passed), the
  image decodes and the heuristic returns the empty
  string for the text the reader gave, the handler answers 400 with exactly the body
  \<open>{"error": "No clear question found in the image", "extracted_text": ""}\<close>, and no
  chat-completion request is made.
\<close>

theorem no_question_response:
  assumes "content_length req \<le> MAX_CONTENT_LENGTH self"
    and "files req ''image'' = Some f" "filename f \<noteq> ''''"
    and "allowed_file (filename f) = Inr True"
    and "image_open w (stream f) = Inr img"
    and "reader (question_analyzer self) img = Inr results"
    and "question_heuristic (full_text_of results) = ''''"
  shows "process_question_image w self req =
           (Inr ([(''error'', ''No clear question found in the image''),
                  (''extracted_text'', '''')], 400),
            [ImageOpened (stream f), OcrRun img])
         \<and> (\<forall>r. ChatRequested r \<notin> set (snd (process_question_image w self req)))"
proof -
  have "extract_question (question_analyzer self) img = (Inr '''', [OcrRun img])"
    using assms(6,7) by (simp add: extract_question_eq)
  with assms(1-5) have "process_question_image w self req =
           (Inr ([(''error'', ''No clear question found in the image''),
                  (''extracted_text'', '''')], 400),
            [ImageOpened (stream f), OcrRun img])"
    by (rule handler_no_question)
  then show ?thesis by simp
qed

theorem no_question_response_witness:
  "content_length (upload ''question.png'') \<le> MAX_CONTENT_LENGTH (app_with ocr_hello)
   \<and> files (upload ''question.png'') ''image''
     = Some \<lparr>filename = ''question.png'', stream = [137, 80, 78, 71]\<rparr>
   \<and> allowed_file ''question.png'' = Inr True
   \<and> image_open sample_world [137, 80, 78, 71] = Inr [[255, 255], [0, 255]]
   \<and> reader (question_analyzer (app_with ocr_hello)) [[255, 255], [0, 255]]
       = Inr [(sample_box, ''Hello world'', 9 / 10)]
   \<and> question_heuristic (full_text_of [(sample_box, ''Hello world'', 9 / 10)]) = ''''
   \<and> process_question_image sample_world (app_with ocr_hello) (upload ''question.png'')
       = (Inr ([(''error'', ''No clear question found in the image''),
                (''extracted_text'', '''')], 400),
          [ImageOpened [137, 80, 78, 71], OcrRun [[255, 255], [0, 255]]])"
proof -
  have r: "reader (question_analyzer (app_with ocr_hello)) [[255, 255], [0, 255]]
       = Inr [(sample_box, ''Hello world'', 9 / 10)]"
    by (simp add: app_with_def ocr_hello_def)
  have f: "filename \<lparr>filename = ''question.png'', stream = [137, 80, 78, 71]\<rparr> \<noteq> ''''"
    "allowed_file (filename \<lparr>filename = ''question.png'', stream = [137, 80, 78, 71]\<rparr>) = Inr True"
    "image_open sample_world (stream \<lparr>filename = ''question.png'', stream = [137, 80, 78, 71]\<rparr>)
       = Inr [[255, 255], [0, 255]]"
    by (simp_all add: allowed_question_png sample_decode)
  from no_question_response [OF upload_within upload_file f r hello_no_question]
  have "process_question_image sample_world (app_with ocr_hello) (upload ''question.png'')
       = (Inr ([(''error'', ''No clear question found in the image''),
                (''extracted_text'', '''')], 400),
          [ImageOpened [137, 80, 78, 71], OcrRun [[255, 255], [0, 255]]])"
    by simp
  with upload_within [of "''question.png''" ocr_hello]
    upload_file [of "''question.png''"] allowed_question_png
    sample_decode [of "[137, 80, 78, 71]"] r hello_no_question
  show ?thesis by (intro conjI)
qed

text \<open>
  C7. The extracted text is the text fields of the triples joined with newlines: nothing
  for no triple, the text alone for one, and the first text, a newline and the text of the
  rest otherwise; bounding regions and confidences are not used. The order is the
  reader's: when no text holds a newline, cutting the joined text at the newlines gives
  back the list of text fields. This text is what \<open>extract_question\<close> examines.
\<close>

theorem full_text_joined:
  "full_text_of [] = ''''
   \<and> full_text_of [(box, text, conf)] = text
   \<and> full_text_of ((box, text, conf) # r # rs) = text @ [CHR 0x0A] @ full_text_of (r # rs)
   \<and> full_text_of results = py_join [CHR 0x0A] (map (\<lambda>(box, text, conf). text) results)
   \<and> (results \<noteq> [] \<and> (\<forall>(box, text, conf) \<in> set results. CHR 0x0A \<notin> set text) \<longrightarrow>
        split_on (CHR 0x0A) (full_text_of results) = map (\<lambda>(box, text, conf). text) results)
   \<and> (reader self img = Inr results \<longrightarrow>
        fst (extract_question self img) = Inr (question_heuristic (full_text_of results)))"
proof -
  have eq: "(\<lambda>result::ocr_result. fst (snd result)) = (\<lambda>(box, text, conf). text)"
    by (simp add: fun_eq_iff)
  have j: "full_text_of results = py_join [CHR 0x0A] (map (\<lambda>(box, text, conf). text) results)"
    by (simp add: full_text_of_def eq)
  have rt: "split_on (CHR 0x0A) (full_text_of results) = map (\<lambda>(box, text, conf). text) results"
    if "results \<noteq> [] \<and> (\<forall>(box, text, conf) \<in> set results. CHR 0x0A \<notin> set text)"
  proof -
    from that have "map (\<lambda>(box, text, conf). text) results \<noteq> []"
      and "\<forall>t \<in> set (map (\<lambda>(box, text, conf). text) results). CHR 0x0A \<notin> set t"
      by auto
    then show ?thesis unfolding j by (rule split_on_join)
  qed
  have ex: "reader self img = Inr results \<longrightarrow>
        fst (extract_question self img) = Inr (question_heuristic (full_text_of results))"
    by (simp add: extract_question_eq)
  have "full_text_of [] = ''''" "full_text_of [(box, text, conf)] = text"
    "full_text_of ((box, text, conf) # r # rs) = text @ [CHR 0x0A] @ full_text_of (r # rs)"
    by (simp_all add: full_text_of_def)
  with j rt ex show ?thesis by blast
qed

theorem full_text_joined_witness:
  "full_text_of [(sample_box, ''How many moons'', 9 / 10), (sample_box, ''does Mars have?'', 4 / 5)]
     = ''How many moons'' @ [CHR 0x0A] @ ''does Mars have?''
   \<and> split_on (CHR 0x0A)
        (full_text_of [(sample_box, ''How many moons'', 9 / 10), (sample_box, ''does Mars have?'', 4 / 5)])
     = [''How many moons'', ''does Mars have?'']
   \<and> reader \<lparr>reader = ocr_moons\<rparr> [[0]]
        = Inr [(sample_box, ''How many moons'', 9 / 10), (sample_box, ''does Mars have?'', 4 / 5)]
   \<and> fst (extract_question \<lparr>reader = ocr_moons\<rparr> [[0]])
        = Inr (''How many moons'' @ [CHR 0x0A] @ ''does Mars have?'')"
proof -
  let ?rs = "[(sample_box, ''How many moons'', 9 / 10), (sample_box, ''does Mars have?'', 4 / 5 :: rat)]"
  note inst = full_text_joined [of sample_box "''How many moons''" "9 / 10"
      "(sample_box, ''does Mars have?'', 4 / 5)" "[]" ?rs "\<lparr>reader = ocr_moons\<rparr>" "[[0]]"]
  have ft: "full_text_of ?rs = ''How many moons'' @ [CHR 0x0A] @ ''does Mars have?''"
    by (simp add: full_text_of_def)
  have r: "reader \<lparr>reader = ocr_moons\<rparr> [[0]] = Inr ?rs"
    by (simp add: ocr_moons_def)
  have q: "question_heuristic (''How many moons'' @ [CHR 0x0A] @ ''does Mars have?'')
             = ''How many moons'' @ [CHR 0x0A] @ ''does Mars have?''"
    by code_simp
  have hyp: "?rs \<noteq> [] \<and> (\<forall>(box, text, conf) \<in> set ?rs. CHR 0x0A \<notin> set text)"
    by simp
  from inst hyp
  have "split_on (CHR 0x0A) (full_text_of ?rs) = map (\<lambda>(box, text, conf). text) ?rs"
    by blast
  then have s: "split_on (CHR 0x0A) (full_text_of ?rs) = [''How many moons'', ''does Mars have?'']"
    by simp
  from inst r
  have "fst (extract_question \<lparr>reader = ocr_moons\<rparr> [[0]])
          = Inr (question_heuristic (full_text_of ?rs))"
    by blast
  then have e: "fst (extract_question \<lparr>reader = ocr_moons\<rparr> [[0]])
        = Inr (''How many moons'' @ [CHR 0x0A] @ ''does Mars have?'')"
    by (simp only: ft q)
  from ft s r e show ?thesis by (intro conjI)
qed

text \<open>
  C8, as the specification states it: when \<open>OPENAI_API_KEY\<close> is absent from the environment
  at process start, analyzer initialization raises and the process never serves. The code
  does otherwise when a \<open>.env\<close> file supplies the key: \<open>load_dotenv()\<close> on line 15 adds it
  to the environment before the analyzer is built. With the variable absent from the
  process environment and \<open>OPENAI_API_KEY=sk-test\<close> in \<open>.env\<close>, the analyzer is built and
  \<open>app.run\<close> is called.
\<close>

theorem startup_with_dotenv_key_counterexample:
  "env_no_key ''OPENAI_API_KEY'' = None
   \<and> fst (QuestionOCRAnalyzer_init sample_world (load_dotenv dotenv_with_key env_no_key) [''en''])
       = Inr \<lparr>reader = ocr_moons\<rparr>
   \<and> module_main sample_world dotenv_with_key env_no_key =
       (Inr (), [DirsMade ''/tmp/uploads'', ReaderBuilt [''en''],
                 RouteRegistered ''/answer-question'',
                 Logged INFO ''Question Answering OCR Application initialized successfully'',
                 Served ''0.0.0.0'' 5000 True])"
proof -
  have n: "env_no_key ''OPENAI_API_KEY'' = None" by (simp add: env_no_key_def)
  have k: "load_dotenv dotenv_with_key env_no_key ''OPENAI_API_KEY'' = Some ''sk-test''"
    by (simp add: load_dotenv_def env_no_key_def dotenv_with_key_def)
  have u: "load_dotenv dotenv_with_key env_no_key ''UPLOAD_FOLDER'' = Some ''/tmp/uploads''"
    by (simp add: load_dotenv_def env_no_key_def dotenv_with_key_def)
  have a: "QuestionOCRAnalyzer_init sample_world (load_dotenv dotenv_with_key env_no_key) [''en'']
       = (Inr \<lparr>reader = ocr_moons\<rparr>, [ReaderBuilt [''en'']])"
    by (simp add: QuestionOCRAnalyzer_init_def k sample_world_def reader_ok_def io_defs)
  have m: "module_main sample_world dotenv_with_key env_no_key =
       (Inr (), [DirsMade ''/tmp/uploads'', ReaderBuilt [''en''],
                 RouteRegistered ''/answer-question'',
                 Logged INFO ''Question Answering OCR Application initialized successfully'',
                 Served ''0.0.0.0'' 5000 True])"
  proof -
    have mk: "makedirs sample_world p = Inr ()" for p
      by (simp add: sample_world_def makedirs_ok_def)
    have ar: "app_run sample_world = Inr ()"
      by (simp add: sample_world_def)
    show ?thesis
      by (simp add: module_main_def main_def FlaskQuestionAnswerApp_init_def a u mk ar run_def
          io_defs Let_def)
  qed
  from n a m show ?thesis by simp
qed

text \<open>
  C8, amended: when \<open>OPENAI_API_KEY\<close> is absent or empty once \<open>load_dotenv()\<close> has run, that
  is empty in the process environment, or absent from it and absent or empty in the
  \<open>.env\<close> file, building the analyzer raises (the \<open>ValueError\<close> "OpenAI API key is required"
  once the reader is built). \<open>main\<close> then logs at level CRITICAL, as its last act, the
  exception that stopped the construction of the application, and never calls \<open>app.run\<close>.
  When the upload directory can be made that exception is the analyzer's, and when the
  reader can be built as well the whole trace is: directory made, reader built, the ERROR
  record of the analyzer, the CRITICAL record of \<open>main\<close>, both with the message of the
  \<open>ValueError\<close>.
\<close>

theorem missing_api_key_stops_startup:
  assumes "environ ''OPENAI_API_KEY'' = Some ''''
           \<or> (environ ''OPENAI_API_KEY'' = None
               \<and> (dotenv ''OPENAI_API_KEY'' = None \<or> dotenv ''OPENAI_API_KEY'' = Some ''''))"
  shows "(\<exists>e t. QuestionOCRAnalyzer_init w (load_dotenv dotenv environ) languages = (Inl e, t))
         \<and> (\<forall>rd. easyocr_Reader w languages = Inr rd \<longrightarrow>
               QuestionOCRAnalyzer_init w (load_dotenv dotenv environ) languages =
                 (Inl (Exn ''ValueError'' ''OpenAI API key is required''),
                  [ReaderBuilt languages,
                   Logged ERROR ''Initialization failed: OpenAI API key is required'']))
         \<and> (\<exists>e t. FlaskQuestionAnswerApp_init w (load_dotenv dotenv environ) = (Inl e, t)
                    \<and> module_main w dotenv environ =
                        (Inr (), t @ [Logged CRITICAL (''Application startup failed: '' @ exn_str e)])
                    \<and> (\<forall>h p d. Served h p d \<notin> set t))
         \<and> (\<forall>u. makedirs w (case load_dotenv dotenv environ ''UPLOAD_FOLDER'' of
                               None \<Rightarrow> ''./uploads'' | Some d \<Rightarrow> d) = Inr u \<longrightarrow>
               (\<exists>e t. QuestionOCRAnalyzer_init w (load_dotenv dotenv environ) [''en''] = (Inl e, t)
                      \<and> module_main w dotenv environ =
                          (Inr (), DirsMade (case load_dotenv dotenv environ ''UPLOAD_FOLDER'' of
                                               None \<Rightarrow> ''./uploads'' | Some d \<Rightarrow> d)
                                   # t @ [Logged CRITICAL
                                            (''Application startup failed: '' @ exn_str e)])))
         \<and> (\<forall>u rd. makedirs w (case load_dotenv dotenv environ ''UPLOAD_FOLDER'' of
                               None \<Rightarrow> ''./uploads'' | Some d \<Rightarrow> d) = Inr u
                    \<and> easyocr_Reader w [''en''] = Inr rd \<longrightarrow>
               module_main w dotenv environ =
                 (Inr (), [DirsMade (case load_dotenv dotenv environ ''UPLOAD_FOLDER'' of
                                       None \<Rightarrow> ''./uploads'' | Some d \<Rightarrow> d),
                           ReaderBuilt [''en''],
                           Logged ERROR ''Initialization failed: OpenAI API key is required'',
                           Logged CRITICAL ''Application startup failed: OpenAI API key is required'']))
         \<and> (\<forall>h p d. Served h p d \<notin> set (snd (module_main w dotenv environ)))"
proof -
  let ?env = "load_dotenv dotenv environ"
  let ?folder = "case ?env ''UPLOAD_FOLDER'' of None \<Rightarrow> ''./uploads'' | Some d \<Rightarrow> d"
  have key: "?env ''OPENAI_API_KEY'' = None \<or> ?env ''OPENAI_API_KEY'' = Some ''''"
    using assms by (simp only: load_dotenv_key)
  note init = analyzer_init_no_key [of ?env, OF key]
  have a: "\<exists>e t. QuestionOCRAnalyzer_init w ?env languages = (Inl e, t)"
    by (simp add: init split: sum.splits)
  have b: "\<forall>rd. easyocr_Reader w languages = Inr rd \<longrightarrow>
               QuestionOCRAnalyzer_init w ?env languages =
                 (Inl (Exn ''ValueError'' ''OpenAI API key is required''),
                  [ReaderBuilt languages,
                   Logged ERROR ''Initialization failed: OpenAI API key is required''])"
    by (simp add: init)
  obtain e t where i: "FlaskQuestionAnswerApp_init w ?env = (Inl e, t)"
    and s: "\<forall>h p d. Served h p d \<notin> set t"
    using app_init_no_key [of ?env, OF key] by blast
  have m: "module_main w dotenv environ =
      (Inr (), t @ [Logged CRITICAL (''Application startup failed: '' @ exn_str e)])"
    unfolding module_main_def using i by (rule main_after_failed_init)
  have c: "\<exists>e t. FlaskQuestionAnswerApp_init w ?env = (Inl e, t)
                    \<and> module_main w dotenv environ =
                        (Inr (), t @ [Logged CRITICAL (''Application startup failed: '' @ exn_str e)])
                    \<and> (\<forall>h p d. Served h p d \<notin> set t)"
    using i m s by blast
  have d: "\<exists>e t. QuestionOCRAnalyzer_init w ?env [''en''] = (Inl e, t)
                      \<and> module_main w dotenv environ =
                          (Inr (), DirsMade ?folder
                                   # t @ [Logged CRITICAL
                                            (''Application startup failed: '' @ exn_str e)])"
    if mk: "makedirs w ?folder = Inr u" for u
  proof -
    obtain e' t' where q: "QuestionOCRAnalyzer_init w ?env [''en''] = (Inl e', t')"
      using init [of w "[''en'']"] by (auto split: sum.splits)
    have "FlaskQuestionAnswerApp_init w ?env = (Inl e', DirsMade ?folder # t')"
      using mk q by (rule app_init_after_makedirs)
    then have "main w ?env = (Inr (), (DirsMade ?folder # t')
                 @ [Logged CRITICAL (''Application startup failed: '' @ exn_str e')])"
      by (rule main_after_failed_init)
    with q show ?thesis by (simp add: module_main_def)
  qed
  have f: "module_main w dotenv environ =
                 (Inr (), [DirsMade ?folder, ReaderBuilt [''en''],
                           Logged ERROR ''Initialization failed: OpenAI API key is required'',
                           Logged CRITICAL ''Application startup failed: OpenAI API key is required''])"
    if mk: "makedirs w ?folder = Inr u" and rd: "easyocr_Reader w [''en''] = Inr rd" for u rd
  proof -
    have q: "QuestionOCRAnalyzer_init w ?env [''en''] =
                 (Inl (Exn ''ValueError'' ''OpenAI API key is required''),
                  [ReaderBuilt [''en''],
                   Logged ERROR ''Initialization failed: OpenAI API key is required''])"
      using rd by (simp add: init)
    have "FlaskQuestionAnswerApp_init w ?env =
            (Inl (Exn ''ValueError'' ''OpenAI API key is required''),
             DirsMade ?folder # [ReaderBuilt [''en''],
                   Logged ERROR ''Initialization failed: OpenAI API key is required''])"
      using mk q by (rule app_init_after_makedirs)
    then have "main w ?env = (Inr (), (DirsMade ?folder # [ReaderBuilt [''en''],
                   Logged ERROR ''Initialization failed: OpenAI API key is required''])
                 @ [Logged CRITICAL (''Application startup failed: ''
                      @ exn_str (Exn ''ValueError'' ''OpenAI API key is required''))])"
      by (rule main_after_failed_init)
    then show ?thesis by (simp add: module_main_def)
  qed
  have g: "\<forall>h p d. Served h p d \<notin> set (snd (module_main w dotenv environ))"
    using s by (simp add: m)
  from a b c d f g show ?thesis by blast
qed

theorem missing_api_key_stops_startup_witness:
  "env_no_key ''OPENAI_API_KEY'' = None \<and> no_dotenv ''OPENAI_API_KEY'' = None
   \<and> env_empty_key ''OPENAI_API_KEY'' = Some ''''
   \<and> easyocr_Reader sample_world [''en''] = Inr ocr_moons
   \<and> QuestionOCRAnalyzer_init sample_world (load_dotenv no_dotenv env_no_key) [''en''] =
       (Inl (Exn ''ValueError'' ''OpenAI API key is required''),
        [ReaderBuilt [''en''], Logged ERROR ''Initialization failed: OpenAI API key is required''])
   \<and> module_main sample_world no_dotenv env_no_key =
       (Inr (), [DirsMade ''/tmp/uploads'', ReaderBuilt [''en''],
                 Logged ERROR ''Initialization failed: OpenAI API key is required'',
                 Logged CRITICAL ''Application startup failed: OpenAI API key is required''])
   \<and> module_main sample_world dotenv_with_key env_empty_key =
       (Inr (), [DirsMade ''./uploads'', ReaderBuilt [''en''],
                 Logged ERROR ''Initialization failed: OpenAI API key is required'',
                 Logged CRITICAL ''Application startup failed: OpenAI API key is required''])
   \<and> Served ''0.0.0.0'' 5000 True \<notin> set (snd (module_main sample_world no_dotenv env_no_key))
   \<and> Served ''0.0.0.0'' 5000 True
        \<notin> set (snd (module_main sample_world dotenv_with_key env_empty_key))"
proof -
  have n: "env_no_key ''OPENAI_API_KEY'' = None" by (simp add: env_no_key_def)
  have nd: "no_dotenv ''OPENAI_API_KEY'' = None" by (simp add: no_dotenv_def)
  have e: "env_empty_key ''OPENAI_API_KEY'' = Some ''''" by (simp add: env_empty_key_def)
  have r: "easyocr_Reader sample_world [''en''] = Inr ocr_moons"
    by (simp add: sample_world_def reader_ok_def)
  have mk: "makedirs sample_world p = Inr ()" for p
    by (simp add: sample_world_def makedirs_ok_def)
  have u1: "load_dotenv no_dotenv env_no_key ''UPLOAD_FOLDER'' = Some ''/tmp/uploads''"
    by (simp add: load_dotenv_def env_no_key_def)
  have u2: "load_dotenv dotenv_with_key env_empty_key ''UPLOAD_FOLDER'' = None"
    by (simp add: load_dotenv_def env_empty_key_def dotenv_with_key_def)
  have h1: "env_no_key ''OPENAI_API_KEY'' = Some ''''
           \<or> (env_no_key ''OPENAI_API_KEY'' = None
               \<and> (no_dotenv ''OPENAI_API_KEY'' = None \<or> no_dotenv ''OPENAI_API_KEY'' = Some ''''))"
    using n nd by simp
  have h2: "env_empty_key ''OPENAI_API_KEY'' = Some ''''
           \<or> (env_empty_key ''OPENAI_API_KEY'' = None
               \<and> (dotenv_with_key ''OPENAI_API_KEY'' = None
                    \<or> dotenv_with_key ''OPENAI_API_KEY'' = Some ''''))"
    using e by simp
  note i1 = missing_api_key_stops_startup [of env_no_key no_dotenv, OF h1,
      where w = sample_world and languages = "[''en'']"]
  note i2 = missing_api_key_stops_startup [of env_empty_key dotenv_with_key, OF h2,
      where w = sample_world and languages = "[''en'']"]
  from i1 r have 1: "QuestionOCRAnalyzer_init sample_world (load_dotenv no_dotenv env_no_key) [''en''] =
       (Inl (Exn ''ValueError'' ''OpenAI API key is required''),
        [ReaderBuilt [''en''], Logged ERROR ''Initialization failed: OpenAI API key is required''])"
    by blast
  from i1 mk r have "module_main sample_world no_dotenv env_no_key =
       (Inr (), [DirsMade (case load_dotenv no_dotenv env_no_key ''UPLOAD_FOLDER'' of
                             None \<Rightarrow> ''./uploads'' | Some d \<Rightarrow> d),
                 ReaderBuilt [''en''],
                 Logged ERROR ''Initialization failed: OpenAI API key is required'',
                 Logged CRITICAL ''Application startup failed: OpenAI API key is required''])"
    by blast
  then have 2: "module_main sample_world no_dotenv env_no_key =
       (Inr (), [DirsMade ''/tmp/uploads'', ReaderBuilt [''en''],
                 Logged ERROR ''Initialization failed: OpenAI API key is required'',
                 Logged CRITICAL ''Application startup failed: OpenAI API key is required''])"
    by (simp add: u1)
  from i2 mk r have "module_main sample_world dotenv_with_key env_empty_key =
       (Inr (), [DirsMade (case load_dotenv dotenv_with_key env_empty_key ''UPLOAD_FOLDER'' of
                             None \<Rightarrow> ''./uploads'' | Some d \<Rightarrow> d),
                 ReaderBuilt [''en''],
                 Logged ERROR ''Initialization failed: OpenAI API key is required'',
                 Logged CRITICAL ''Application startup failed: OpenAI API key is required''])"
    by blast
  then have 3: "module_main sample_world dotenv_with_key env_empty_key =
       (Inr (), [DirsMade ''./uploads'', ReaderBuilt [''en''],
                 Logged ERROR ''Initialization failed: OpenAI API key is required'',
                 Logged CRITICAL ''Application startup failed: OpenAI API key is required''])"
    by (simp add: u2)
  from i1 have 4: "Served ''0.0.0.0'' 5000 True \<notin> set (snd (module_main sample_world no_dotenv env_no_key))"
    by blast
  from i2 have 5: "Served ''0.0.0.0'' 5000 True
        \<notin> set (snd (module_main sample_world dotenv_with_key env_empty_key))"
    by blast
  from n nd e r 1 2 3 4 5 show ?thesis by (intro conjI)
qed

text \<open>
  C9. \<open>extract_question\<close> always returns a string: an exception of the reader is caught,
  logged and turned into the empty string. To the handler a failing reader and a reader
  whose text is not a question are the same: for a request that reaches the OCR step (body
  within the size limit, valid upload, decoded image) the response is equal.
\<close>

theorem extract_question_total:
  "(\<exists>s t. extract_question self img = (Inr s, t))
   \<and> (\<forall>e. reader self img = Inl e \<longrightarrow>
         extract_question self img =
           (Inr '''', [OcrRun img, Logged ERROR (''Question extraction failed: '' @ exn_str e)]))
   \<and> (\<forall>e results f. reader (question_analyzer app) img = Inl e
         \<and> reader (question_analyzer app') img = Inr results
         \<and> question_heuristic (full_text_of results) = ''''
         \<and> content_length req \<le> MAX_CONTENT_LENGTH app
         \<and> content_length req \<le> MAX_CONTENT_LENGTH app'
         \<and> files req ''image'' = Some f \<and> filename f \<noteq> ''''
         \<and> allowed_file (filename f) = Inr True \<and> image_open w (stream f) = Inr img
         \<longrightarrow> fst (process_question_image w app req) = fst (process_question_image w app' req))"
proof (intro conjI allI impI)
  show "\<exists>s t. extract_question self img = (Inr s, t)"
    using extract_question_returns by blast
next
  fix e assume "reader self img = Inl e"
  then show "extract_question self img =
           (Inr '''', [OcrRun img, Logged ERROR (''Question extraction failed: '' @ exn_str e)])"
    by (simp add: extract_question_eq)
next
  fix e results f
  assume a: "reader (question_analyzer app) img = Inl e
         \<and> reader (question_analyzer app') img = Inr results
         \<and> question_heuristic (full_text_of results) = ''''
         \<and> content_length req \<le> MAX_CONTENT_LENGTH app
         \<and> content_length req \<le> MAX_CONTENT_LENGTH app'
         \<and> files req ''image'' = Some f \<and> filename f \<noteq> ''''
         \<and> allowed_file (filename f) = Inr True \<and> image_open w (stream f) = Inr img"
  then have x: "extract_question (question_analyzer app) img =
      (Inr '''', [OcrRun img, Logged ERROR (''Question extraction failed: '' @ exn_str e)])"
    and x': "extract_question (question_analyzer app') img = (Inr '''', [OcrRun img])"
    by (simp_all add: extract_question_eq)
  from a have l: "content_length req \<le> MAX_CONTENT_LENGTH app"
    and l': "content_length req \<le> MAX_CONTENT_LENGTH app'" by simp_all
  from a have v: "files req ''image'' = Some f" "filename f \<noteq> ''''"
    "allowed_file (filename f) = Inr True" "image_open w (stream f) = Inr img" by simp_all
  show "fst (process_question_image w app req) = fst (process_question_image w app' req)"
    by (simp add: handler_no_question [OF l v x] handler_no_question [OF l' v x'])
qed

theorem extract_question_total_witness:
  "content_length (upload ''question.png'') \<le> MAX_CONTENT_LENGTH (app_with ocr_broken)
   \<and> content_length (upload ''question.png'') \<le> MAX_CONTENT_LENGTH (app_with ocr_hello)
   \<and> reader (question_analyzer (app_with ocr_broken)) [[255, 255], [0, 255]]
     = Inl (Exn ''RuntimeError'' ''CUDA out of memory'')
   \<and> extract_question (question_analyzer (app_with ocr_broken)) [[255, 255], [0, 255]]
     = (Inr '''', [OcrRun [[255, 255], [0, 255]],
                   Logged ERROR ''Question extraction failed: CUDA out of memory''])
   \<and> reader (question_analyzer (app_with ocr_hello)) [[255, 255], [0, 255]]
     = Inr [(sample_box, ''Hello world'', 9 / 10)]
   \<and> fst (process_question_image sample_world (app_with ocr_broken) (upload ''question.png''))
     = fst (process_question_image sample_world (app_with ocr_hello) (upload ''question.png''))"
proof -
  let ?img = "[[255, 255], [0, 255 :: nat]]"
  have r: "reader (question_analyzer (app_with ocr_broken)) ?img
     = Inl (Exn ''RuntimeError'' ''CUDA out of memory'')"
    by (simp add: app_with_def ocr_broken_def)
  have r': "reader (question_analyzer (app_with ocr_hello)) ?img
     = Inr [(sample_box, ''Hello world'', 9 / 10)]"
    by (simp add: app_with_def ocr_hello_def)
  note inst = extract_question_total [where self = "question_analyzer (app_with ocr_broken)"
      and img = ?img and app = "app_with ocr_broken" and app' = "app_with ocr_hello"
      and req = "upload ''question.png''" and w = sample_world]
  from inst r have "extract_question (question_analyzer (app_with ocr_broken)) ?img
     = (Inr '''', [OcrRun ?img, Logged ERROR (''Question extraction failed: ''
          @ exn_str (Exn ''RuntimeError'' ''CUDA out of memory''))])"
    by blast
  then have x: "extract_question (question_analyzer (app_with ocr_broken)) ?img
     = (Inr '''', [OcrRun ?img, Logged ERROR ''Question extraction failed: CUDA out of memory''])"
    by simp
  have f: "filename \<lparr>filename = ''question.png'', stream = [137, 80, 78, 71]\<rparr> \<noteq> ''''"
    "allowed_file (filename \<lparr>filename = ''question.png'', stream = [137, 80, 78, 71]\<rparr>) = Inr True"
    "image_open sample_world (stream \<lparr>filename = ''question.png'', stream = [137, 80, 78, 71]\<rparr>)
       = Inr ?img"
    by (simp_all add: allowed_question_png sample_decode)
  note l = upload_within [of "''question.png''" ocr_broken]
  note l' = upload_within [of "''question.png''" ocr_hello]
  from inst r r' hello_no_question l l' upload_file [of "''question.png''"] f
  have p: "fst (process_question_image sample_world (app_with ocr_broken) (upload ''question.png''))
     = fst (process_question_image sample_world (app_with ocr_hello) (upload ''question.png''))"
    by blast
  from l l' r x r' p show ?thesis by (intro conjI)
qed

text \<open>
  C10. A filename that is just \<open>.\<close> followed by an allowed extension has an empty base
  name, is not the empty filename and passes \<open>allowed_file\<close>: a request within the size
  limit that uploads a file of that name gets past validation, and the handler goes on to
  open the image.
\<close>

theorem dot_extension_accepted:
  "\<forall>e \<in> ALLOWED_EXTENSIONS.
      rsplit1 (CHR ''.'') (CHR ''.'' # e) = ['''', e]
      \<and> CHR ''.'' # e \<noteq> ''''
      \<and> allowed_file (CHR ''.'' # e) = Inr True
      \<and> (\<forall>f. content_length req \<le> MAX_CONTENT_LENGTH self
              \<and> files req ''image'' = Some f \<and> filename f = CHR ''.'' # e \<longrightarrow>
            (\<exists>t. snd (process_question_image w self req) = ImageOpened (stream f) # t))"
proof
  fix e assume e: "e \<in> ALLOWED_EXTENSIONS"
  then have nodot: "CHR ''.'' \<notin> set e" by (rule no_dot_allowed)
  then have "rfind (CHR ''.'') e = None" by (simp add: rfind_None)
  then have rf: "rfind (CHR ''.'') (CHR ''.'' # e) = Some 0"
    by simp
  then have cut: "rsplit1 (CHR ''.'') (CHR ''.'' # e) = ['''', e]"
    by (simp add: rsplit1_def)
  have ok: "allowed_file (CHR ''.'' # e) = Inr True"
    using e cut by (simp add: allowed_file_def py_index_def py_lower_allowed)
  have "\<exists>t. snd (process_question_image w self req) = ImageOpened (stream f) # t"
    if "content_length req \<le> MAX_CONTENT_LENGTH self
          \<and> files req ''image'' = Some f \<and> filename f = CHR ''.'' # e" for f
    using that ok by (intro handler_valid_decodes) simp_all
  with cut ok show "rsplit1 (CHR ''.'') (CHR ''.'' # e) = ['''', e]
      \<and> CHR ''.'' # e \<noteq> ''''
      \<and> allowed_file (CHR ''.'' # e) = Inr True
      \<and> (\<forall>f. content_length req \<le> MAX_CONTENT_LENGTH self
              \<and> files req ''image'' = Some f \<and> filename f = CHR ''.'' # e \<longrightarrow>
            (\<exists>t. snd (process_question_image w self req) = ImageOpened (stream f) # t))"
    by blast
qed

theorem dot_extension_accepted_witness:
  "''png'' \<in> ALLOWED_EXTENSIONS
   \<and> content_length (upload ''.png'') \<le> MAX_CONTENT_LENGTH (app_with ocr_hello)
   \<and> allowed_file ''.png'' = Inr True
   \<and> files (upload ''.png'') ''image'' = Some \<lparr>filename = ''.png'', stream = [137, 80, 78, 71]\<rparr>
   \<and> (\<exists>t. snd (process_question_image sample_world (app_with ocr_hello) (upload ''.png''))
            = ImageOpened [137, 80, 78, 71] # t)"
proof -
  have mem: "''png'' \<in> ALLOWED_EXTENSIONS" by (simp add: ALLOWED_EXTENSIONS_def)
  have up: "files (upload ''.png'') ''image'' = Some \<lparr>filename = ''.png'', stream = [137, 80, 78, 71]\<rparr>"
    by (simp add: upload_def)
  note l = upload_within [of "''.png''" ocr_hello]
  from dot_extension_accepted [where req = "upload ''.png''" and w = sample_world
      and self = "app_with ocr_hello"] mem l up
  show ?thesis by fastforce
qed

end
